theory Spec2Isabelle
  imports Main "HOL-Library.Sublist"
begin

section \<open>Strings and paths\<close>

text \<open>
  Go strings are byte sequences; they are modelled as \<open>string\<close> (a list of 8-bit
  characters). The collector is deployed on Linux, so \<open>filepath.Base\<close> is the Unix one:
  the separator is \<open>/\<close> and there is no volume name.
\<close>

definition nl :: char where
  "nl = CHR 0x0A"

definition isSlash :: "char \<Rightarrow> bool" where
  "isSlash c = (c = CHR ''/'')"

definition stripTrailingSlashes :: "string \<Rightarrow> string" where
  "stripTrailingSlashes p = rev (dropWhile isSlash (rev p))"

definition lastElement :: "string \<Rightarrow> string" where
  "lastElement p = rev (takeWhile (\<lambda>c. \<not> isSlash c) (rev p))"

text \<open>\<open>filepath.Base\<close>: the last element of the path, \<open>.\<close> for the empty path and
  \<open>/\<close> for a path of slashes only.\<close>

definition Base :: "string \<Rightarrow> string" where
  "Base path =
     (if path = [] then ''.''
      else let p = lastElement (stripTrailingSlashes path)
           in if p = [] then ''/'' else p)"

text \<open>\<open>strings.HasPrefix\<close> and \<open>strings.TrimPrefix\<close>.\<close>

definition HasPrefix :: "string \<Rightarrow> string \<Rightarrow> bool" where
  "HasPrefix s p = (take (length p) s = p)"

definition TrimPrefix :: "string \<Rightarrow> string \<Rightarrow> string" where
  "TrimPrefix s p = (if HasPrefix s p then drop (length p) s else s)"

section \<open>Regular expressions\<close>

text \<open>
  The patterns of the parser are concatenations of literal characters, capture-group
  marks, anchors and repetitions of a single character class; none has an alternation or
  a repeated group. A pattern is a list of items, matched by backtracking in priority
  order (a greedy repetition tries the longest count first, a lazy one the shortest),
  which is the leftmost-first submatch that Go's \<open>regexp\<close> reports. The classes are
  ASCII classes or negations of one ASCII character, and every repetition is followed by
  an ASCII literal or an anchor, so matching bytes gives the matches of matching runes.
\<close>

datatype item =
    Lit char
  | Rep "char \<Rightarrow> bool" nat "nat option" bool
  | Open nat
  | Close nat
  | Bol bool
  | Eol bool

record mstate =
  pos :: nat
  prev :: "char option"
  rest :: string
  starts :: "(nat \<times> nat) list"
  groups :: "(nat \<times> nat \<times> nat) list"

definition adv :: "nat \<Rightarrow> mstate \<Rightarrow> mstate" where
  "adv k s =
     (if k = 0 then s
      else s\<lparr>pos := pos s + k, prev := Some (rest s ! (k - 1)), rest := drop k (rest s)\<rparr>)"

definition run_len :: "(char \<Rightarrow> bool) \<Rightarrow> nat option \<Rightarrow> string \<Rightarrow> nat" where
  "run_len p hi xs =
     (let n = length (takeWhile p xs)
      in case hi of None \<Rightarrow> n | Some h \<Rightarrow> min h n)"

definition counts :: "nat \<Rightarrow> nat \<Rightarrow> bool \<Rightarrow> nat list" where
  "counts lo m greedy = (if greedy then rev [lo..<Suc m] else [lo..<Suc m])"

text \<open>\<open>Bol m\<close> is \<open>^\<close> and \<open>Eol m\<close> is \<open>$\<close>, with the multi-line flag \<open>m\<close>: without
  it they hold at the beginning and at the end of the text only. \<open>tryCounts\<close> tries the
  counts of a repetition in their priority order and keeps the first that lets the rest
  of the pattern match.\<close>

fun run :: "item list \<Rightarrow> mstate \<Rightarrow> mstate option"
  and tryCounts :: "item list \<Rightarrow> mstate \<Rightarrow> nat list \<Rightarrow> mstate option" where
  "run [] s = Some s"
| "run (Lit c # r) s =
     (case rest s of
        [] \<Rightarrow> None
      | x # xs \<Rightarrow> if x = c then run r (adv 1 s) else None)"
| "run (Rep p lo hi greedy # r) s =
     (let m = run_len p hi (rest s)
      in if m < lo then None else tryCounts r s (counts lo m greedy))"
| "run (Open n # r) s = run r (s\<lparr>starts := (n, pos s) # starts s\<rparr>)"
| "run (Close n # r) s =
     (case map_of (starts s) n of
        None \<Rightarrow> None
      | Some b \<Rightarrow> run r (s\<lparr>groups := (n, b, pos s) # groups s\<rparr>))"
| "run (Bol m # r) s =
     (if pos s = 0 \<or> (m \<and> prev s = Some nl) then run r s else None)"
| "run (Eol m # r) s =
     (if rest s = [] \<or> (m \<and> hd (rest s) = nl) then run r s else None)"
| "tryCounts r s [] = None"
| "tryCounts r s (k # ks) =
     (case run r (adv k s) of
        Some m \<Rightarrow> Some m
      | None \<Rightarrow> tryCounts r s ks)"

text \<open>The leftmost match at or after a position: the start positions are tried from left
  to right. Group 0 is the whole match.\<close>

fun search :: "item list \<Rightarrow> nat \<Rightarrow> char option \<Rightarrow> string \<Rightarrow> mstate option" where
  "search re i pv [] =
     run re \<lparr>pos = i, prev = pv, rest = [], starts = [], groups = []\<rparr>"
| "search re i pv (x # xs) =
     (case run re \<lparr>pos = i, prev = pv, rest = x # xs, starts = [], groups = []\<rparr> of
        Some m \<Rightarrow> Some m
      | None \<Rightarrow> search re (Suc i) (Some x) xs)"

definition whole :: "item list \<Rightarrow> item list" where
  "whole re = Open 0 # re @ [Close 0]"

definition searchFrom :: "item list \<Rightarrow> string \<Rightarrow> nat \<Rightarrow> mstate option" where
  "searchFrom re inp i =
     search (whole re) i (if i = 0 then None else Some (inp ! (i - 1))) (drop i inp)"

definition group :: "string \<Rightarrow> mstate \<Rightarrow> nat \<Rightarrow> string" where
  "group inp m n =
     (case map_of (groups m) n of
        None \<Rightarrow> []
      | Some (b, e) \<Rightarrow> take (e - b) (drop b inp))"

text \<open>\<open>FindStringSubmatch\<close>: the groups \<open>0..n\<close> of the leftmost match, or \<open>None\<close> (Go's
  \<open>nil\<close>).\<close>

definition FindStringSubmatch :: "item list \<Rightarrow> nat \<Rightarrow> string \<Rightarrow> string list option" where
  "FindStringSubmatch re n inp =
     (case searchFrom re inp 0 of
        None \<Rightarrow> None
      | Some m \<Rightarrow> Some (map (group inp m) [0..<Suc n]))"

definition MatchString :: "item list \<Rightarrow> string \<Rightarrow> bool" where
  "MatchString re inp = (searchFrom re inp 0 \<noteq> None)"

definition lits :: "string \<Rightarrow> item list" where
  "lits s = map Lit s"

definition code :: "char \<Rightarrow> int" where
  "code c = of_char c"

definition isDigit :: "char \<Rightarrow> bool" where
  "isDigit c = (48 \<le> code c \<and> code c \<le> 57)"



definition isLowerHex :: "char \<Rightarrow> bool" where
  "isLowerHex c =
     (let n = code c in (97 \<le> n \<and> n \<le> 102) \<or> (48 \<le> n \<and> n \<le> 57))"

definition notNl :: "char \<Rightarrow> bool" where
  "notNl c = (c \<noteq> nl)"

definition digits :: "nat \<Rightarrow> item" where
  "digits n = Rep isDigit n (Some n) True"

section \<open>Log kinds and file names\<close>

datatype LogType =
    LogTypeMain
  | LogTypeV1Messages
  | LogTypeV1CountTokens
  | LogTypeProviderMessages
  | LogTypeProviderCountTokens
  | LogTypeProviderResponses
  | LogTypeEventBatch

text \<open>\<^verbatim>\<open>^main-(\d{4}-\d{2}-\d{2}T\d{2}-\d{2}-\d{2}\.\d{3})\.log$\<close>\<close>

definition mainLogFilePattern :: "item list" where
  "mainLogFilePattern =
     [Bol False] @ lits ''main-'' @
     [Open 1, digits 4, Lit CHR ''-'', digits 2, Lit CHR ''-'', digits 2, Lit CHR ''T'',
      digits 2, Lit CHR ''-'', digits 2, Lit CHR ''-'', digits 2, Lit CHR ''.'', digits 3,
      Close 1] @
     lits ''.log'' @ [Eol False]"

text \<open>\<^verbatim>\<open>^(.+)-(\d{4}-\d{2}-\d{2}T\d{6})-([a-f0-9]{8})\.log$\<close>\<close>

definition apiLogFilePattern :: "item list" where
  "apiLogFilePattern =
     [Bol False, Open 1, Rep notNl 1 None True, Close 1, Lit CHR ''-'',
      Open 2, digits 4, Lit CHR ''-'', digits 2, Lit CHR ''-'', digits 2, Lit CHR ''T'',
      digits 6, Close 2, Lit CHR ''-'',
      Open 3, Rep isLowerHex 8 (Some 8) True, Close 3] @
     lits ''.log'' @ [Eol False]"

definition DetermineLogType :: "string \<Rightarrow> LogType" where
  "DetermineLogType filename =
     (let base = Base filename
      in if MatchString mainLogFilePattern base \<or> base = ''main.log'' then LogTypeMain
         else if HasPrefix base ''api-provider-agy-api-event_logging-batch''
           then LogTypeEventBatch
         else if HasPrefix base ''api-provider-agy-v1-messages-count_tokens''
           then LogTypeProviderCountTokens
         else if HasPrefix base ''api-provider-agy-responses'' then LogTypeProviderResponses
         else if HasPrefix base ''api-provider-agy'' then LogTypeProviderMessages
         else if HasPrefix base ''v1-messages-count_tokens'' then LogTypeV1CountTokens
         else if HasPrefix base ''v1-messages'' then LogTypeV1Messages
         else LogTypeMain)"

definition ExtractRequestIDFromFilename :: "string \<Rightarrow> string" where
  "ExtractRequestIDFromFilename filename =
     (let base = Base filename
      in case FindStringSubmatch apiLogFilePattern 3 base of
           Some matches \<Rightarrow> if length matches \<ge> 4 then matches ! 3 else []
         | None \<Rightarrow> [])"

text \<open>
  The classifier as the specification words it: rules evaluated in order on the file name,
  the first match wins, and \<open>main\<close> is the default.
\<close>

definition classify_rules :: "((string \<Rightarrow> bool) \<times> LogType) list" where
  "classify_rules =
     [(\<lambda>n. MatchString mainLogFilePattern n \<or> n = ''main.log'', LogTypeMain),
      (\<lambda>n. HasPrefix n ''api-provider-agy-api-event_logging-batch'', LogTypeEventBatch),
      (\<lambda>n. HasPrefix n ''api-provider-agy-v1-messages-count_tokens'',
         LogTypeProviderCountTokens),
      (\<lambda>n. HasPrefix n ''api-provider-agy-responses'', LogTypeProviderResponses),
      (\<lambda>n. HasPrefix n ''api-provider-agy'', LogTypeProviderMessages),
      (\<lambda>n. HasPrefix n ''v1-messages-count_tokens'', LogTypeV1CountTokens),
      (\<lambda>n. HasPrefix n ''v1-messages'', LogTypeV1Messages)]"

fun first_match :: "((string \<Rightarrow> bool) \<times> LogType) list \<Rightarrow> string \<Rightarrow> LogType" where
  "first_match [] n = LogTypeMain"
| "first_match ((p, k) # rs) n = (if p n then k else first_match rs n)"

definition classify :: "string \<Rightarrow> LogType" where
  "classify n = first_match classify_rules n"

section \<open>Library functions on strings\<close>

text \<open>
  \<open>strings.TrimSpace\<close> removes leading and trailing white space as \<open>unicode.IsSpace\<close>
  defines it: the six ASCII characters, and the UTF-8 encodings of U+0085, U+00A0,
  U+1680, U+2000 to U+200A, U+2028, U+2029, U+202F, U+205F and U+3000.
\<close>

definition asciiSpace :: "char \<Rightarrow> bool" where
  "asciiSpace c =
     (code c = 9 \<or> code c = 10 \<or> code c = 11 \<or> code c = 12 \<or> code c = 13 \<or> code c = 32)"

definition unicodeSpaces :: "string list" where
  "unicodeSpaces =
     [[CHR 0xC2, CHR 0x85], [CHR 0xC2, CHR 0xA0], [CHR 0xE1, CHR 0x9A, CHR 0x80],
      [CHR 0xE2, CHR 0x80, CHR 0x80], [CHR 0xE2, CHR 0x80, CHR 0x81],
      [CHR 0xE2, CHR 0x80, CHR 0x82], [CHR 0xE2, CHR 0x80, CHR 0x83],
      [CHR 0xE2, CHR 0x80, CHR 0x84], [CHR 0xE2, CHR 0x80, CHR 0x85],
      [CHR 0xE2, CHR 0x80, CHR 0x86], [CHR 0xE2, CHR 0x80, CHR 0x87],
      [CHR 0xE2, CHR 0x80, CHR 0x88], [CHR 0xE2, CHR 0x80, CHR 0x89],
      [CHR 0xE2, CHR 0x80, CHR 0x8A], [CHR 0xE2, CHR 0x80, CHR 0xA8],
      [CHR 0xE2, CHR 0x80, CHR 0xA9], [CHR 0xE2, CHR 0x80, CHR 0xAF],
      [CHR 0xE2, CHR 0x81, CHR 0x9F], [CHR 0xE3, CHR 0x80, CHR 0x80]]"

text \<open>The width in bytes of the white-space character at the head of the string, or 0.
  With \<open>rev = True\<close> the string is read backwards, from its last byte. A byte below
  \<open>0x80\<close> is a character of its own, as in the ASCII fast path of \<open>TrimSpace\<close>.\<close>

definition spaceWidth :: "bool \<Rightarrow> string \<Rightarrow> nat" where
  "spaceWidth backwards s =
     (case s of
        [] \<Rightarrow> 0
      | c # cs \<Rightarrow>
          if asciiSpace c then 1
          else if code c < 128 then 0
          else (case find (\<lambda>w. take (length w) s = (if backwards then rev w else w))
                       unicodeSpaces of
                  None \<Rightarrow> 0
                | Some w \<Rightarrow> length w))"

function trimHead :: "bool \<Rightarrow> string \<Rightarrow> string" where
  "trimHead backwards s =
     (if spaceWidth backwards s = 0 \<or> s = [] then s
      else trimHead backwards (drop (spaceWidth backwards s) s))"
  by pat_completeness auto
termination
  by (relation "measure (\<lambda>(backwards, s). length s)") auto

definition TrimSpace :: "string \<Rightarrow> string" where
  "TrimSpace s = rev (trimHead True (rev (trimHead False s)))"

text \<open>\<open>strings.Split(s, "\n")\<close>: the pieces between newlines; the empty string gives one
  empty piece.\<close>

fun splitOn :: "char \<Rightarrow> string \<Rightarrow> string list" where
  "splitOn d [] = [[]]"
| "splitOn d (c # cs) =
     (if c = d then [] # splitOn d cs
      else (case splitOn d cs of
              [] \<Rightarrow> [[c]]
            | l # ls \<Rightarrow> (c # l) # ls))"

definition SplitLines :: "string \<Rightarrow> string list" where
  "SplitLines s = splitOn nl s"

text \<open>\<open>strings.Join(xs, "\n")\<close>.\<close>

fun JoinLines :: "string list \<Rightarrow> string" where
  "JoinLines [] = []"
| "JoinLines [x] = x"
| "JoinLines (x # y # ys) = x @ nl # JoinLines (y # ys)"

text \<open>\<open>strings.Index(s, ":")\<close>: the position of the first colon, \<open>None\<close> for Go's \<open>-1\<close>.\<close>

definition IndexColon :: "string \<Rightarrow> nat option" where
  "IndexColon s =
     (if CHR '':'' \<in> set s then Some (length (takeWhile (\<lambda>c. c \<noteq> CHR '':'') s)) else None)"






section \<open>Records of the parser\<close>




datatype error = ErrIO | ErrTooLong | ErrStorage


section \<open>The main-log parser\<close>
















section \<open>JSON decoding\<close>

text \<open>
  \<open>encoding/json\<close> belongs to the standard library. Its decoder is modelled on the JSON
  grammar it accepts: a value surrounded by optional white space, objects with string
  keys, arrays, strings with the escapes \<open>\" \\ \/ \b \f \n \r \t \uXXXX\<close>, numbers and
  the three literals. A number is kept as its literal text. An object is the list of its
  members in source order; Go stores them in a map, so the last member of a name is the
  one a lookup finds.
\<close>

datatype json =
    JNull
  | JBool bool
  | JNumber string
  | JString string
  | JArray "json list"
  | JObject "(string \<times> json) list"

definition jsonSpace :: "char \<Rightarrow> bool" where
  "jsonSpace c = (c = CHR '' '' \<or> c = CHR 0x09 \<or> c = CHR 0x0D \<or> c = CHR 0x0A)"

definition skipWs :: "string \<Rightarrow> string" where
  "skipWs s = dropWhile jsonSpace s"

definition hexVal :: "char \<Rightarrow> int option" where
  "hexVal c =
     (let n = code c
      in if 48 \<le> n \<and> n \<le> 57 then Some (n - 48)
         else if 97 \<le> n \<and> n \<le> 102 then Some (n - 87)
         else if 65 \<le> n \<and> n \<le> 70 then Some (n - 55)
         else None)"

text \<open>\<open>getu4\<close>: the value of \<open>\uXXXX\<close> at the head of the string.\<close>

definition getu4 :: "string \<Rightarrow> int option" where
  "getu4 s =
     (case s of
        b # u # h1 # h2 # h3 # h4 # r \<Rightarrow>
          if b = CHR 0x5C \<and> u = CHR ''u'' then
            (case (hexVal h1, hexVal h2, hexVal h3, hexVal h4) of
               (Some a, Some b, Some c, Some d) \<Rightarrow> Some (((a * 16 + b) * 16 + c) * 16 + d)
             | _ \<Rightarrow> None)
          else None
      | _ \<Rightarrow> None)"

definition byte :: "int \<Rightarrow> char" where
  "byte n = char_of n"

text \<open>\<open>utf8.AppendRune\<close> for a valid code point.\<close>

definition encodeRune :: "int \<Rightarrow> string" where
  "encodeRune r =
     (if r < 0x80 then [byte r]
      else if r < 0x800 then [byte (0xC0 + r div 64), byte (0x80 + r mod 64)]
      else if r < 0x10000 then
        [byte (0xE0 + r div 4096), byte (0x80 + (r div 64) mod 64), byte (0x80 + r mod 64)]
      else
        [byte (0xF0 + r div 262144), byte (0x80 + (r div 4096) mod 64),
         byte (0x80 + (r div 64) mod 64), byte (0x80 + r mod 64)])"

definition replacementChar :: string where
  "replacementChar = [CHR 0xEF, CHR 0xBF, CHR 0xBD]"

definition isCont :: "char \<Rightarrow> bool" where
  "isCont c = (0x80 \<le> code c \<and> code c \<le> 0xBF)"

text \<open>The width of the valid UTF-8 sequence at the head of the string, as
  \<open>utf8.DecodeRune\<close> accepts it, or 0 when the first byte starts none.\<close>

definition utf8Width :: "string \<Rightarrow> nat" where
  "utf8Width s =
     (case s of
        [] \<Rightarrow> 0
      | c0 # r0 \<Rightarrow>
          let a = code c0 in
          if a < 0x80 then 1
          else if a < 0xC2 then 0
          else (case r0 of
                  [] \<Rightarrow> 0
                | c1 # r1 \<Rightarrow>
                    let b = code c1 in
                    if a \<le> 0xDF then (if isCont c1 then 2 else 0)
                    else if a \<le> 0xEF then
                      (if (if a = 0xE0 then 0xA0 \<le> b \<and> b \<le> 0xBF
                           else if a = 0xED then 0x80 \<le> b \<and> b \<le> 0x9F
                           else isCont c1)
                       then (case r1 of c2 # r2 \<Rightarrow> if isCont c2 then 3 else 0 | [] \<Rightarrow> 0)
                       else 0)
                    else if a \<le> 0xF4 then
                      (if (if a = 0xF0 then 0x90 \<le> b \<and> b \<le> 0xBF
                           else if a = 0xF4 then 0x80 \<le> b \<and> b \<le> 0x8F
                           else isCont c1)
                       then (case r1 of
                               c2 # c3 # r3 \<Rightarrow> if isCont c2 \<and> isCont c3 then 4 else 0
                             | _ \<Rightarrow> 0)
                       else 0)
                    else 0))"

definition simpleEscape :: "char \<Rightarrow> char option" where
  "simpleEscape c =
     (if c = CHR 0x22 \<or> c = CHR 0x5C \<or> c = CHR ''/'' then Some c
      else if c = CHR ''b'' then Some (CHR 0x08)
      else if c = CHR ''f'' then Some (CHR 0x0C)
      else if c = CHR ''n'' then Some (CHR 0x0A)
      else if c = CHR ''r'' then Some (CHR 0x0D)
      else if c = CHR ''t'' then Some (CHR 0x09)
      else None)"

text \<open>
  The body of a string after its opening quote: the decoded bytes and the text after the
  closing quote. A surrogate escape that is followed by its low half is the code point of
  the pair; any other surrogate, and any byte that starts no valid UTF-8 sequence,
  becomes U+FFFD. The first argument bounds the recursion by the length of the text,
  and every step consumes a byte.
\<close>

fun parseStr :: "nat \<Rightarrow> string \<Rightarrow> string \<Rightarrow> (string \<times> string) option" where
  "parseStr 0 s acc = None"
| "parseStr (Suc n) [] acc = None"
| "parseStr (Suc n) (c # cs) acc =
     (if c = CHR 0x22 then Some (acc, cs)
      else if c = CHR 0x5C then
        (case cs of
           [] \<Rightarrow> None
         | e # es \<Rightarrow>
             if e = CHR ''u'' then
               (case getu4 (c # cs) of
                  None \<Rightarrow> None
                | Some rr \<Rightarrow>
                    let r4 = drop 4 es in
                    if 0xD800 \<le> rr \<and> rr < 0xE000 then
                      (case getu4 r4 of
                         Some rr1 \<Rightarrow>
                           if rr < 0xDC00 \<and> 0xDC00 \<le> rr1 \<and> rr1 < 0xE000
                           then parseStr n (drop 6 r4)
                                  (acc @ encodeRune
                                     ((rr - 0xD800) * 1024 + (rr1 - 0xDC00) + 0x10000))
                           else parseStr n r4 (acc @ replacementChar)
                       | None \<Rightarrow> parseStr n r4 (acc @ replacementChar))
                    else parseStr n r4 (acc @ encodeRune rr))
             else (case simpleEscape e of
                     None \<Rightarrow> None
                   | Some d \<Rightarrow> parseStr n es (acc @ [d])))
      else if code c < 0x20 then None
      else if code c < 0x80 then parseStr n cs (acc @ [c])
      else (let w = utf8Width (c # cs)
            in if w = 0 then parseStr n cs (acc @ replacementChar)
               else parseStr n (drop w (c # cs)) (acc @ take w (c # cs))))"

text \<open>The number at the head of the text, by the grammar
  \<^verbatim>\<open>-? (0 | [1-9][0-9]*) (. [0-9]+)? ([eE] [+-]? [0-9]+)?\<close>.\<close>

definition spanDigits :: "string \<Rightarrow> string \<times> string" where
  "spanDigits s = (takeWhile isDigit s, dropWhile isDigit s)"

definition parseNumber :: "string \<Rightarrow> (string \<times> string) option" where
  "parseNumber s =
     (let (sign, s1) = (case s of c # r \<Rightarrow> if c = CHR ''-'' then ([c], r) else ([], s)
                               | [] \<Rightarrow> ([], s));
          (ds, s2) = spanDigits s1
      in if ds = [] then None
         else
           let (ipart, s3) = (if hd ds = CHR ''0'' then (''0'', drop 1 s1) else (ds, s2));
               (frac, s4) =
                 (case s3 of
                    c # r \<Rightarrow>
                      if c = CHR ''.'' then (case spanDigits r of (fs, r') \<Rightarrow> (Some fs, r'))
                      else (None, s3)
                  | [] \<Rightarrow> (None, s3))
           in if frac = Some [] then None
              else
                let (ex, s5) =
                      (case s4 of
                         c # r \<Rightarrow>
                           if c = CHR ''e'' \<or> c = CHR ''E'' then
                             (let (sg, r1) =
                                    (case r of
                                       d # r' \<Rightarrow>
                                         if d = CHR ''+'' \<or> d = CHR ''-'' then ([d], r')
                                         else ([], r)
                                     | [] \<Rightarrow> ([], r))
                              in case spanDigits r1 of (es, r2) \<Rightarrow> (Some (c # sg @ es, es), r2))
                           else (None, s4)
                       | [] \<Rightarrow> (None, s4))
                in (case ex of
                      Some (t, es) \<Rightarrow>
                        if es = [] then None
                        else Some (sign @ ipart @ (case frac of Some fs \<Rightarrow> CHR ''.'' # fs
                                                   | None \<Rightarrow> []) @ t, s5)
                    | None \<Rightarrow>
                        Some (sign @ ipart @ (case frac of Some fs \<Rightarrow> CHR ''.'' # fs
                                              | None \<Rightarrow> []), s5)))"

definition parseLiteral :: "string \<Rightarrow> json \<Rightarrow> string \<Rightarrow> (json \<times> string) option" where
  "parseLiteral w v s = (if take (length w) s = w then Some (v, drop (length w) s) else None)"

text \<open>A value, the elements of an array after an element, and the members of an object
  from a key on. The first argument bounds the recursion as in \<open>parseStr\<close>.\<close>

fun parseValue :: "nat \<Rightarrow> string \<Rightarrow> (json \<times> string) option"
  and parseElems :: "nat \<Rightarrow> string \<Rightarrow> json list \<Rightarrow> (json \<times> string) option"
  and parseMembers :: "nat \<Rightarrow> string \<Rightarrow> (string \<times> json) list \<Rightarrow> (json \<times> string) option"
  where
  "parseValue 0 s = None"
| "parseValue (Suc n) s =
     (case skipWs s of
        [] \<Rightarrow> None
      | c # cs \<Rightarrow>
          if c = CHR ''{'' then
            (case skipWs cs of
               [] \<Rightarrow> None
             | d # ds \<Rightarrow> if d = CHR ''}'' then Some (JObject [], ds)
                        else parseMembers n (d # ds) [])
          else if c = CHR ''['' then
            (case skipWs cs of
               [] \<Rightarrow> None
             | d # ds \<Rightarrow> if d = CHR '']'' then Some (JArray [], ds)
                        else (case parseValue n (d # ds) of
                                None \<Rightarrow> None
                              | Some (v, r) \<Rightarrow> parseElems n r [v]))
          else if c = CHR 0x22 then
            (case parseStr (Suc (length cs)) cs [] of
               None \<Rightarrow> None
             | Some (str, r) \<Rightarrow> Some (JString str, r))
          else if c = CHR ''t'' then parseLiteral ''true'' (JBool True) (c # cs)
          else if c = CHR ''f'' then parseLiteral ''false'' (JBool False) (c # cs)
          else if c = CHR ''n'' then parseLiteral ''null'' JNull (c # cs)
          else (case parseNumber (c # cs) of
                  None \<Rightarrow> None
                | Some (t, r) \<Rightarrow> Some (JNumber t, r)))"
| "parseElems 0 s acc = None"
| "parseElems (Suc n) s acc =
     (case skipWs s of
        [] \<Rightarrow> None
      | c # cs \<Rightarrow>
          if c = CHR '']'' then Some (JArray acc, cs)
          else if c = CHR '','' then
            (case parseValue n cs of
               None \<Rightarrow> None
             | Some (v, r) \<Rightarrow> parseElems n r (acc @ [v]))
          else None)"
| "parseMembers 0 s acc = None"
| "parseMembers (Suc n) s acc =
     (case s of
        [] \<Rightarrow> None
      | q # qs \<Rightarrow>
          if q \<noteq> CHR 0x22 then None
          else (case parseStr (Suc (length qs)) qs [] of
                  None \<Rightarrow> None
                | Some (k, r) \<Rightarrow>
                    (case skipWs r of
                       [] \<Rightarrow> None
                     | c # cs \<Rightarrow>
                         if c \<noteq> CHR '':'' then None
                         else (case parseValue n cs of
                                 None \<Rightarrow> None
                               | Some (v, r') \<Rightarrow>
                                   (case skipWs r' of
                                      [] \<Rightarrow> None
                                    | e # es \<Rightarrow>
                                        if e = CHR ''}'' then Some (JObject (acc @ [(k, v)]), es)
                                        else if e = CHR '','' then
                                          parseMembers n (skipWs es) (acc @ [(k, v)])
                                        else None)))))"

text \<open>The whole text as one value (\<open>checkValid\<close> and the decoding that follows it).\<close>

definition parseJSON :: "string \<Rightarrow> json option" where
  "parseJSON s =
     (case parseValue (Suc (length s)) s of
        None \<Rightarrow> None
      | Some (v, r) \<Rightarrow> if skipWs r = [] then Some v else None)"

text \<open>
  A number decoded into an \<open>interface{}\<close> goes through \<open>strconv.ParseFloat\<close>, which fails
  when the correctly rounded value is infinite, that is from \<open>2^1024 - 2^970\<close> on. The
  exponent is accumulated as \<open>ParseFloat\<close> does, only while it is below 10000.
\<close>

definition digitsValue :: "string \<Rightarrow> int" where
  "digitsValue ds = foldl (\<lambda>n c. n * 10 + (code c - 48)) 0 ds"

definition clampedExponent :: "string \<Rightarrow> int" where
  "clampedExponent ds = foldl (\<lambda>e c. if e < 10000 then e * 10 + (code c - 48) else e) 0 ds"

definition float64Overflows :: "string \<Rightarrow> bool" where
  "float64Overflows t =
     (let s0 = (if t \<noteq> [] \<and> hd t = CHR ''-'' then tl t else t);
          ip = takeWhile isDigit s0;
          s1 = dropWhile isDigit s0;
          fr = (if s1 \<noteq> [] \<and> hd s1 = CHR ''.'' then takeWhile isDigit (tl s1) else []);
          s2 = (if s1 \<noteq> [] \<and> hd s1 = CHR ''.'' then dropWhile isDigit (tl s1) else s1);
          s3 = (if s2 \<noteq> [] then tl s2 else []);
          neg = (s3 \<noteq> [] \<and> hd s3 = CHR ''-'');
          es = (if s3 \<noteq> [] \<and> (hd s3 = CHR ''-'' \<or> hd s3 = CHR ''+'') then tl s3 else s3);
          e = (if neg then - clampedExponent es else clampedExponent es) - int (length fr);
          n = digitsValue (ip @ fr);
          limit = 2 ^ 1024 - 2 ^ 970
      in n \<noteq> 0 \<and> (if 0 \<le> e then n * 10 ^ nat e \<ge> limit else n \<ge> limit * 10 ^ nat (- e)))"

text \<open>Whether a value can be stored in an \<open>interface{}\<close>: every number in it is in range.\<close>

fun convertible :: "json \<Rightarrow> bool" where
  "convertible JNull = True"
| "convertible (JBool b) = True"
| "convertible (JNumber t) = (\<not> float64Overflows t)"
| "convertible (JString s) = True"
| "convertible (JArray vs) = list_all convertible vs"
| "convertible (JObject kvs) = list_all (\<lambda>kv. convertible (snd kv)) kvs"

text \<open>
  \<open>json.Unmarshal\<close> into a nil \<open>map[string]interface{}\<close>: \<open>None\<close> is an error. The text
  \<open>null\<close> is accepted and leaves the map nil, which reads as an empty map.
\<close>

definition unmarshalMap :: "string \<Rightarrow> (string \<times> json) list option" where
  "unmarshalMap s =
     (case parseJSON s of
        Some (JObject kvs) \<Rightarrow> if convertible (JObject kvs) then Some kvs else None
      | Some JNull \<Rightarrow> Some []
      | _ \<Rightarrow> None)"

text \<open>\<open>m[k]\<close> on a decoded object: the last member of that name.\<close>

definition member :: "(string \<times> json) list \<Rightarrow> string \<Rightarrow> json option" where
  "member kvs k = map_of (rev kvs) k"

section \<open>Stream responses\<close>

text \<open>\<open>data["delta"].(map)["text"].(string)\<close>, the empty string when an assertion fails.\<close>

definition deltaText :: "(string \<times> json) list \<Rightarrow> string" where
  "deltaText data =
     (case member data ''delta'' of
        Some (JObject delta) \<Rightarrow>
          (case member delta ''text'' of Some (JString t) \<Rightarrow> t | _ \<Rightarrow> [])
      | _ \<Rightarrow> [])"

text \<open>\<open>data["choices"].([]interface{})[0].(map)["delta"].(map)["content"].(string)\<close>.\<close>

definition choicesContent :: "(string \<times> json) list \<Rightarrow> string" where
  "choicesContent data =
     (case member data ''choices'' of
        Some (JArray (JObject choice # others)) \<Rightarrow>
          (case member choice ''delta'' of
             Some (JObject delta) \<Rightarrow>
               (case member delta ''content'' of Some (JString t) \<Rightarrow> t | _ \<Rightarrow> [])
           | _ \<Rightarrow> [])
      | _ \<Rightarrow> [])"

text \<open>What one line of the body adds to the result (one pass of the loop).\<close>

definition lineContent :: "string \<Rightarrow> string" where
  "lineContent l =
     (let line = TrimSpace l
      in if \<not> HasPrefix line ''data:'' then []
         else let dataStr = TrimSpace (TrimPrefix line ''data:'')
              in if dataStr = ''[DONE]'' then []
                 else (case unmarshalMap dataStr of
                         None \<Rightarrow> []
                       | Some data \<Rightarrow> deltaText data @ choicesContent data))"

definition extractFullStreamResponse :: "string \<Rightarrow> string" where
  "extractFullStreamResponse body = concat (map lineContent (SplitLines body))"

section \<open>Properties of file-name handling\<close>

lemma lastElement_no_slash: "\<not> isSlash c \<or> c \<notin> set (lastElement p)"
  unfolding lastElement_def by (auto dest: set_takeWhileD)

lemma stripTrailingSlashes_id:
  assumes "\<forall>c \<in> set p. \<not> isSlash c"
  shows "stripTrailingSlashes p = p"
proof (cases "rev p")
  case Nil
  then show ?thesis by (simp add: stripTrailingSlashes_def)
next
  case (Cons c cs)
  then have "c \<in> set p" by (metis list.set_intros(1) set_rev)
  with assms have "\<not> isSlash c" by blast
  with Cons have "dropWhile isSlash (rev p) = rev p" by simp
  then have "rev (dropWhile isSlash (rev p)) = rev (rev p)" by (rule arg_cong)
  then show ?thesis by (simp add: stripTrailingSlashes_def)
qed

lemma lastElement_id:
  assumes "\<forall>c \<in> set p. \<not> isSlash c"
  shows "lastElement p = p"
proof -
  have "\<forall>c \<in> set (rev p). \<not> isSlash c" using assms by simp
  then have "takeWhile (\<lambda>c. \<not> isSlash c) (rev p) = rev p"
    by (rule takeWhile_eq_all_conv[THEN iffD2])
  then have "rev (takeWhile (\<lambda>c. \<not> isSlash c) (rev p)) = rev (rev p)"
    by (rule arg_cong)
  then show ?thesis by (simp only: lastElement_def rev_rev_ident)
qed

lemma Base_plain:
  assumes "p \<noteq> []" and "\<forall>c \<in> set p. \<not> isSlash c"
  shows "Base p = p"
  using assms by (simp add: Base_def stripTrailingSlashes_id lastElement_id)

lemma Base_idem: "Base (Base p) = Base p"
proof (cases "p = []")
  case True
  then show ?thesis
    by (simp add: Base_def stripTrailingSlashes_def lastElement_def isSlash_def)
next
  case False
  show ?thesis
  proof (cases "lastElement (stripTrailingSlashes p) = []")
    case True
    with False show ?thesis
      by (simp add: Base_def stripTrailingSlashes_def lastElement_def isSlash_def)
  next
    case nonempty: False
    have "\<forall>c \<in> set (lastElement (stripTrailingSlashes p)). \<not> isSlash c"
      using lastElement_no_slash by blast
    with nonempty have "Base (lastElement (stripTrailingSlashes p)) = lastElement (stripTrailingSlashes p)"
      by (rule Base_plain)
    with False nonempty show ?thesis by (simp add: Base_def)
  qed
qed

text \<open>
  Claim C10. Classification and correlation-id extraction depend only on the base file
  name: for every path \<open>p\<close>, \<open>DetermineLogType p\<close> equals \<open>DetermineLogType\<close> of the base
  name of \<open>p\<close>, and \<open>ExtractRequestIDFromFilename p\<close> equals
  \<open>ExtractRequestIDFromFilename\<close> of the base name of \<open>p\<close>.
\<close>

theorem classify_and_request_id_depend_on_base_only:
  "DetermineLogType p = DetermineLogType (Base p) \<and>
   ExtractRequestIDFromFilename p = ExtractRequestIDFromFilename (Base p)"
  by (simp add: DetermineLogType_def ExtractRequestIDFromFilename_def Base_idem)

lemma DetermineLogType_classify_Base: "DetermineLogType p = classify (Base p)"
  by (simp add: DetermineLogType_def classify_def classify_rules_def Let_def)

text \<open>
  Claim C5. For every file name, \<open>DetermineLogType\<close> is total and returns \<open>main\<close> for
  names matching the main-log timestamp pattern or equal to \<open>main.log\<close>, the corresponding
  kind for each documented prefix in first-match-wins order (event_batch,
  provider_count_tokens, provider_responses, provider_messages, v1_count_tokens,
  v1_messages), and \<open>main\<close> for names matching none of the rules. The rules apply to the
  base name of the argument, which is the argument itself when it is a file name (a string
  with no path separator).
\<close>

theorem DetermineLogType_first_match_wins:
  "DetermineLogType p = classify (Base p) \<and>
   (CHR ''/'' \<notin> set name \<longrightarrow> DetermineLogType name = classify name)"
proof (intro conjI impI)
  show "DetermineLogType p = classify (Base p)"
    by (rule DetermineLogType_classify_Base)
next
  assume plain: "CHR ''/'' \<notin> set name"
  show "DetermineLogType name = classify name"
  proof (cases "name = []")
    case True
    then show ?thesis
      by (simp add: DetermineLogType_classify_Base) code_simp
  next
    case False
    with plain have "Base name = name"
      by (intro Base_plain) (auto simp: isSlash_def)
    then show ?thesis by (simp add: DetermineLogType_classify_Base)
  qed
qed

theorem DetermineLogType_first_match_wins_witness:
  "CHR ''/'' \<notin> set ''v1-messages-count_tokens-2026-01-08T103603-6dcb09d0.log'' \<and>
   DetermineLogType ''v1-messages-count_tokens-2026-01-08T103603-6dcb09d0.log'' =
     LogTypeV1CountTokens"
proof -
  have plain:
    "CHR ''/'' \<notin> set ''v1-messages-count_tokens-2026-01-08T103603-6dcb09d0.log''"
    by simp
  have "classify ''v1-messages-count_tokens-2026-01-08T103603-6dcb09d0.log'' =
    LogTypeV1CountTokens"
    by code_simp
  with plain DetermineLogType_first_match_wins
    [of "''x''" "''v1-messages-count_tokens-2026-01-08T103603-6dcb09d0.log''"]
  show ?thesis by simp
qed

section \<open>Properties of the main-log parser\<close>








end
